theory Spec2Isabelle
  imports Complex_Main
begin

section \<open>Numbers, errors and constants\<close>

text \<open>
  The services compute on JavaScript numbers. The embedding uses \<^typ>\<open>real\<close>: exact
  arithmetic, no rounding, no infinities and no NaN. Every division of the source whose
  divisor can be zero is either guarded in the source (and then in the model) or named in
  the theorem that depends on it.

  The source raises \<open>new Error(message)\<close>, sometimes with a \<open>code\<close> field taken from
  \<open>ERROR_CODES\<close>. Each raise is a value of \<open>error\<close>; the table gives the message of the
  source for each constructor.

  \<^item> \<open>ValidationError\<close>: "Market ID and User ID are required", "Outcome must be "yes" or "no""
  \<^item> \<open>InvalidAmount\<close>: "Bet amount must be positive"
  \<^item> \<open>MarketNotFound\<close>: "Market not found"
  \<^item> \<open>ProfileNotFound\<close>: "User profile not found"
  \<^item> \<open>PoolNotInitialized\<close>: "Market pool not initialized"
  \<^item> \<open>MarketNotActive\<close>: "Market is not active"
  \<^item> \<open>InsufficientBalance\<close>: "Insufficient balance: ..."
  \<^item> \<open>DegeneratePool\<close>: "Total pool cannot be zero"
  \<^item> \<open>PoolExhausted\<close>: "Bet amount too large - would exhaust liquidity pool" and
    "Invalid bet amount - no tokens would be received"
  \<^item> \<open>ZeroTokens\<close>: "Cannot calculate price with zero tokens"
  \<^item> \<open>PoolSizesNotPositive\<close>: "Pool sizes must be positive"
  \<^item> \<open>InvariantViolation\<close>: "Pool state invalid: ..." and
    "Liquidity constant violated - calculation error"
  \<^item> \<open>ProbabilityOutOfRange\<close>: "Probability must be between 0 and 1"
  \<^item> \<open>TargetPriceOutOfRange\<close>: "Target YES price must be between 0 and 1"
  \<^item> \<open>PoolSizeOutOfRange\<close>: "Pool size ... too small. Minimum: ..." and
    "Pool size ... too large. Maximum: ..."
  \<^item> \<open>PersistenceFailure\<close>: the error object a failed database call returns
  \<^item> \<open>BetProcessingFailed\<close>: "Bet processing failed: ..."
\<close>

datatype error =
    ValidationError
  | InvalidAmount
  | MarketNotFound
  | ProfileNotFound
  | PoolNotInitialized
  | MarketNotActive
  | InsufficientBalance
  | DegeneratePool
  | PoolExhausted
  | ZeroTokens
  | PoolSizesNotPositive
  | InvariantViolation
  | ProbabilityOutOfRange
  | TargetPriceOutOfRange
  | PoolSizeOutOfRange
  | PersistenceFailure
  | BetProcessingFailed

text \<open>The string constants of \<open>OUTCOMES\<close> and \<open>MARKET_STATUS\<close>.\<close>

definition OUTCOMES_YES :: string where
  "OUTCOMES_YES = ''yes''"

definition OUTCOMES_NO :: string where
  "OUTCOMES_NO = ''no''"

definition MARKET_STATUS_ACTIVE :: string where
  "MARKET_STATUS_ACTIVE = ''active''"


section \<open>Odds calculation service\<close>

definition calculateYesPrice :: "real \<Rightarrow> real \<Rightarrow> error + real" where
  "calculateYesPrice yesPool noPool =
     (let totalPool = yesPool + noPool
      in if totalPool = 0 then Inl DegeneratePool
         else Inr (noPool / totalPool))"

definition calculateNoPrice :: "real \<Rightarrow> real \<Rightarrow> error + real" where
  "calculateNoPrice yesPool noPool =
     (let totalPool = yesPool + noPool
      in if totalPool = 0 then Inl DegeneratePool
         else Inr (yesPool / totalPool))"

definition calculateLiquidityConstant :: "real \<Rightarrow> real \<Rightarrow> real" where
  "calculateLiquidityConstant yesPool noPool = yesPool * noPool"

text \<open>
  \<open>newInputPool\<close> is not checked against zero by the source. There the JavaScript quotient
  is infinite or NaN; the theorems about this function assume \<open>inputPool + betAmount \<noteq> 0\<close>.
\<close>

definition calculateTokensReceived :: "real \<Rightarrow> real \<Rightarrow> real \<Rightarrow> real \<Rightarrow> error + real" where
  "calculateTokensReceived betAmount inputPool outputPool k =
     (if betAmount \<le> 0 then Inl InvalidAmount
      else
        let newInputPool = inputPool + betAmount;
            newOutputPool = k / newInputPool;
            tokensOut = outputPool - newOutputPool
        in if tokensOut \<ge> outputPool then Inl PoolExhausted
           else if tokensOut \<le> 0 then Inl PoolExhausted
           else Inr tokensOut)"

text \<open>
  \<open>totalValue\<close> is not checked against zero by the source; it is positive whenever both
  arguments are, which is the case on every path that reaches this function after
  \<open>calculateTokensReceived\<close> has returned.
\<close>

definition calculateEffectivePrice :: "real \<Rightarrow> real \<Rightarrow> error + real" where
  "calculateEffectivePrice betAmount tokensReceived =
     (if tokensReceived = 0 then Inl ZeroTokens
      else
        let totalValue = betAmount + tokensReceived;
            effectiveProbability = betAmount / totalValue
        in Inr effectiveProbability)"

definition calculateSlippage :: "real \<Rightarrow> real \<Rightarrow> real" where
  "calculateSlippage initialPrice effectivePrice =
     (if initialPrice = 0 then 0
      else \<bar>(effectivePrice - initialPrice) / initialPrice\<bar>)"

definition calculatePriceImpact :: "real \<Rightarrow> real \<Rightarrow> real" where
  "calculatePriceImpact currentPrice newPrice =
     (if currentPrice = 0 then 0
      else \<bar>(newPrice - currentPrice) / currentPrice\<bar>)"

text \<open>
  \<open>validatePoolState\<close> divides by \<open>k\<close> without a check; the statements about it take
  \<open>k > 0\<close>.
\<close>

definition validatePoolState :: "real \<Rightarrow> real \<Rightarrow> real \<Rightarrow> error + bool" where
  "validatePoolState yesPool noPool k =
     (if yesPool \<le> 0 \<or> noPool \<le> 0 then Inl PoolSizesNotPositive
      else
        let calculatedK = yesPool * noPool;
            kDifference = \<bar>calculatedK - k\<bar>;
            percentageDiff = (kDifference / k) * 100
        in if percentageDiff > 0.01 then Inl InvariantViolation
           else Inr True)"



text \<open>
  \<open>simulateBet\<close>. The \<open>console.warn\<close> on a changed product has no effect on the result
  and is left out.
\<close>

record simulation =
  sim_tokensReceived :: real
  sim_effectivePrice :: real
  sim_slippage :: real
  sim_priceImpact :: real
  sim_priceBeforeBet :: real
  sim_priceAfterBet :: real
  sim_newYesPrice :: real
  sim_newNoPrice :: real
  sim_newYesPool :: real
  sim_newNoPool :: real
  sim_newK :: real

definition simulateBet :: "string \<Rightarrow> real \<Rightarrow> real \<Rightarrow> real \<Rightarrow> real \<Rightarrow> error + simulation" where
  "simulateBet outcome betAmount yesPool noPool k =
     (case (if outcome = ''yes'' then calculateYesPrice yesPool noPool
            else calculateNoPrice yesPool noPool) of
        Inl e \<Rightarrow> Inl e
      | Inr priceBeforeBet \<Rightarrow>
     (case (if outcome = ''yes''
            then calculateTokensReceived betAmount noPool yesPool k
            else calculateTokensReceived betAmount yesPool noPool k) of
        Inl e \<Rightarrow> Inl e
      | Inr tokensReceived \<Rightarrow>
     (let newYesPool = (if outcome = ''yes'' then yesPool - tokensReceived
                        else yesPool + betAmount);
          newNoPool = (if outcome = ''yes'' then noPool + betAmount
                       else noPool - tokensReceived)
      in
     (case calculateYesPrice newYesPool newNoPool of
        Inl e \<Rightarrow> Inl e
      | Inr newYesPrice \<Rightarrow>
     (case calculateNoPrice newYesPool newNoPool of
        Inl e \<Rightarrow> Inl e
      | Inr newNoPrice \<Rightarrow>
     (let priceAfterBet = (if outcome = ''yes'' then newYesPrice else newNoPrice)
      in
     (case calculateEffectivePrice betAmount tokensReceived of
        Inl e \<Rightarrow> Inl e
      | Inr effectivePrice \<Rightarrow>
          Inr \<lparr> sim_tokensReceived = tokensReceived,
                sim_effectivePrice = effectivePrice,
                sim_slippage = calculateSlippage priceBeforeBet effectivePrice,
                sim_priceImpact = calculatePriceImpact priceBeforeBet priceAfterBet,
                sim_priceBeforeBet = priceBeforeBet,
                sim_priceAfterBet = priceAfterBet,
                sim_newYesPrice = newYesPrice,
                sim_newNoPrice = newNoPrice,
                sim_newYesPool = newYesPool,
                sim_newNoPool = newNoPool,
                sim_newK = newYesPool * newNoPool \<rparr>)))))))"


section \<open>Odds converter service\<close>

definition probabilityToOdds :: "real \<Rightarrow> error + real" where
  "probabilityToOdds probability =
     (if probability \<le> 0 \<or> probability \<ge> 1 then Inl ProbabilityOutOfRange
      else Inr (1 / probability))"

record volume_odds =
  yesOdds :: real
  noOdds :: real

definition calculateOddsFromVolume :: "real \<Rightarrow> real \<Rightarrow> error + volume_odds" where
  "calculateOddsFromVolume yesVolume noVolume =
     (let totalVolume = yesVolume + noVolume
      in if totalVolume = 0 then Inr \<lparr> yesOdds = 2.0, noOdds = 2.0 \<rparr>
         else
           let yesProbability = noVolume / totalVolume;
               noProbability = yesVolume / totalVolume
           in case probabilityToOdds yesProbability of
                Inl e \<Rightarrow> Inl e
              | Inr yo \<Rightarrow>
                  (case probabilityToOdds noProbability of
                     Inl e \<Rightarrow> Inl e
                   | Inr no \<Rightarrow> Inr \<lparr> yesOdds = yo, noOdds = no \<rparr>))"


section \<open>Liquidity pool service\<close>

definition MIN_POOL_SIZE :: real where
  "MIN_POOL_SIZE = 100"

definition MAX_POOL_SIZE :: real where
  "MAX_POOL_SIZE = 100000"

definition validatePoolSize :: "real \<Rightarrow> error + bool" where
  "validatePoolSize poolSize =
     (if poolSize < MIN_POOL_SIZE then Inl PoolSizeOutOfRange
      else if poolSize > MAX_POOL_SIZE then Inl PoolSizeOutOfRange
      else Inr True)"

record pool_init =
  init_yesPool :: real
  init_noPool :: real
  init_liquidityConstant :: real
  init_initialPoolSize :: real
  init_initialYesPrice :: real
  init_initialNoPrice :: real

text \<open>
  \<open>initializeAsymmetricPool\<close>. The price comparison after the pools are computed only
  logs a warning; the call to \<open>calculateYesPrice\<close> before it can raise and is kept.
\<close>

definition initializeAsymmetricPool :: "real \<Rightarrow> real \<Rightarrow> error + pool_init" where
  "initializeAsymmetricPool totalLiquidity targetYesPrice =
     (if targetYesPrice \<le> 0 \<or> targetYesPrice \<ge> 1 then Inl TargetPriceOutOfRange
      else
        case validatePoolSize (totalLiquidity / 2) of
          Inl e \<Rightarrow> Inl e
        | Inr _ \<Rightarrow>
            (let noPool = totalLiquidity * targetYesPrice;
                 yesPool = totalLiquidity - noPool;
                 k = calculateLiquidityConstant yesPool noPool
             in (case calculateYesPrice yesPool noPool of
                   Inl e \<Rightarrow> Inl e
                 | Inr actualYesPrice \<Rightarrow>
                     Inr \<lparr> init_yesPool = yesPool,
                           init_noPool = noPool,
                           init_liquidityConstant = k,
                           init_initialPoolSize = totalLiquidity / 2,
                           init_initialYesPrice = targetYesPrice,
                           init_initialNoPrice = 1 - targetYesPrice \<rparr>)))"


section \<open>House margin service\<close>

definition MIN_MARGIN :: real where
  "MIN_MARGIN = 0.001"

definition MAX_MARGIN :: real where
  "MAX_MARGIN = 0.10"

text \<open>
  The constructor. The argument is \<open>parseFloat(process.env.HOUSE_MARGIN)\<close>, \<open>None\<close> when
  the variable is unset or does not parse (NaN). \<open>||\<close> replaces NaN and \<open>0\<close> by \<open>0.02\<close>.
\<close>

definition HOUSE_MARGIN :: "real option \<Rightarrow> real" where
  "HOUSE_MARGIN env =
     (let m = (case env of None \<Rightarrow> 0.02 | Some v \<Rightarrow> if v = 0 then 0.02 else v)
      in if m < MIN_MARGIN \<or> m > MAX_MARGIN then 0.02 else m)"

record margin =
  margin_grossAmount :: real
  margin_netAmount :: real
  margin_houseFee :: real
  margin_feePercentage :: real

definition applyMargin :: "real \<Rightarrow> real \<Rightarrow> error + margin" where
  "applyMargin houseMargin betAmount =
     (if betAmount \<le> 0 then Inl InvalidAmount
      else
        let houseFee = betAmount * houseMargin;
            netAmount = betAmount - houseFee
        in Inr \<lparr> margin_grossAmount = betAmount,
                 margin_netAmount = netAmount,
                 margin_houseFee = houseFee,
                 margin_feePercentage = houseMargin \<rparr>)"



section \<open>The database\<close>

text \<open>
  The tables the betting service reads and writes, with the columns it uses. Market and
  profile rows are keyed by their \<open>id\<close>. Rows of \<open>bets\<close> and \<open>positions\<close> get their \<open>id\<close>
  from the database on insert; the model numbers them by their place in the table.
  Timestamps (\<open>last_price_update\<close>, \<open>created_at\<close>) are not modelled.
\<close>

record market =
  market_status :: string
  market_pool_initialized :: bool
  market_yes_pool :: real
  market_no_pool :: real
  market_liquidity_constant :: real
  market_yes_price :: real
  market_no_price :: real
  market_total_volume :: "real option"

record profile =
  profile_balance :: real

record bet =
  bet_id :: nat
  bet_market_id :: string
  bet_user_id :: string
  bet_outcome :: string
  bet_amount :: real
  bet_price :: real
  bet_potential_return :: real
  bet_status :: string
  bet_yes_pool_before :: real
  bet_no_pool_before :: real
  bet_yes_pool_after :: real
  bet_no_pool_after :: real
  bet_effective_price :: real
  bet_slippage :: real
  bet_house_fee :: real

record position =
  position_id :: nat
  position_user_id :: string
  position_market_id :: string
  position_outcome :: string
  position_shares :: real
  position_avg_price :: real
  position_total_invested :: real
  position_current_value :: real

record transaction_row =
  transaction_user_id :: string
  transaction_type :: string
  transaction_amount :: real
  transaction_balance_after :: real
  transaction_reference_id :: nat

record price_point =
  history_market_id :: string
  history_yes_price :: real
  history_no_price :: real
  history_yes_pool :: real
  history_no_pool :: real
  history_total_volume :: real
  history_bet_id :: nat

record database =
  markets :: "string \<rightharpoonup> market"
  profiles :: "string \<rightharpoonup> profile"
  bets :: "bet list"
  positions :: "position list"
  transactions :: "transaction_row list"
  price_history :: "price_point list"

text \<open>
  Every call of the database client either succeeds or returns an error object and
  changes nothing. Which calls fail is a parameter \<open>fails\<close> of the model; the calls are
  named after the table and the operation.
\<close>

datatype db_call =
    SelectMarket
  | SelectProfile
  | UpdateMarket
  | InsertBet
  | UpdateProfile
  | SelectPosition
  | WritePosition
  | InsertTransaction
  | InsertPriceHistory

text \<open>\<open>supabase.from('markets').update(...).eq('id', marketId)\<close>\<close>

definition update_market_row ::
  "(db_call \<Rightarrow> bool) \<Rightarrow> string \<Rightarrow> (market \<Rightarrow> market) \<Rightarrow> database \<Rightarrow> error option \<times> database" where
  "update_market_row fails marketId change db =
     (if fails UpdateMarket then (Some PersistenceFailure, db)
      else case markets db marketId of
             None \<Rightarrow> (None, db)
           | Some row \<Rightarrow> (None, db \<lparr> markets := (markets db)(marketId \<mapsto> change row) \<rparr>))"

text \<open>\<open>supabase.from('bets').insert(...).select().single()\<close>\<close>

definition insert_bet_row ::
  "(db_call \<Rightarrow> bool) \<Rightarrow> (nat \<Rightarrow> bet) \<Rightarrow> database \<Rightarrow> (error + bet) \<times> database" where
  "insert_bet_row fails row db =
     (if fails InsertBet then (Inl PersistenceFailure, db)
      else let b = row (length (bets db))
           in (Inr b, db \<lparr> bets := bets db @ [b] \<rparr>))"

text \<open>\<open>supabase.from('profiles').update({ balance: newBalance }).eq('id', userId)\<close>\<close>

definition update_profile_row ::
  "(db_call \<Rightarrow> bool) \<Rightarrow> string \<Rightarrow> real \<Rightarrow> database \<Rightarrow> error option \<times> database" where
  "update_profile_row fails userId newBalance db =
     (if fails UpdateProfile then (Some PersistenceFailure, db)
      else case profiles db userId of
             None \<Rightarrow> (None, db)
           | Some row \<Rightarrow>
               (None, db \<lparr> profiles := (profiles db)(userId \<mapsto> row \<lparr> profile_balance := newBalance \<rparr>) \<rparr>))"

text \<open>
  \<open>supabase.from('positions').select('*').eq(...).eq(...).eq(...).single()\<close>: the row when
  exactly one row matches, no data otherwise.
\<close>

definition select_position_row ::
  "(db_call \<Rightarrow> bool) \<Rightarrow> string \<Rightarrow> string \<Rightarrow> string \<Rightarrow> database \<Rightarrow> position option" where
  "select_position_row fails userId marketId outcome db =
     (if fails SelectPosition then None
      else case filter (\<lambda>r. position_user_id r = userId \<and> position_market_id r = marketId
                              \<and> position_outcome r = outcome) (positions db) of
             [r] \<Rightarrow> Some r
           | _ \<Rightarrow> None)"

text \<open>\<open>supabase.from('transactions').insert(...)\<close>\<close>

definition insert_transaction_row ::
  "(db_call \<Rightarrow> bool) \<Rightarrow> transaction_row \<Rightarrow> database \<Rightarrow> error option \<times> database" where
  "insert_transaction_row fails row db =
     (if fails InsertTransaction then (Some PersistenceFailure, db)
      else (None, db \<lparr> transactions := transactions db @ [row] \<rparr>))"

text \<open>\<open>supabase.from('price_history').insert(...)\<close>\<close>

definition insert_price_point ::
  "(db_call \<Rightarrow> bool) \<Rightarrow> price_point \<Rightarrow> database \<Rightarrow> error option \<times> database" where
  "insert_price_point fails row db =
     (if fails InsertPriceHistory then (Some PersistenceFailure, db)
      else (None, db \<lparr> price_history := price_history db @ [row] \<rparr>))"



section \<open>Betting service\<close>

definition getMarket :: "(db_call \<Rightarrow> bool) \<Rightarrow> string \<Rightarrow> database \<Rightarrow> error + market" where
  "getMarket fails marketId db =
     (if fails SelectMarket then Inl MarketNotFound
      else case markets db marketId of
             None \<Rightarrow> Inl MarketNotFound
           | Some m \<Rightarrow> Inr m)"

definition getUserProfile :: "(db_call \<Rightarrow> bool) \<Rightarrow> string \<Rightarrow> database \<Rightarrow> error + profile" where
  "getUserProfile fails userId db =
     (if fails SelectProfile then Inl ProfileNotFound
      else case profiles db userId of
             None \<Rightarrow> Inl ProfileNotFound
           | Some p \<Rightarrow> Inr p)"

text \<open>An empty identifier is the falsy string of the source.\<close>

definition validateBetInputs :: "string \<Rightarrow> string \<Rightarrow> string \<Rightarrow> real \<Rightarrow> error + unit" where
  "validateBetInputs marketId userId outcome betAmount =
     (if marketId = [] \<or> userId = [] then Inl ValidationError
      else if outcome \<notin> set [OUTCOMES_YES, OUTCOMES_NO] then Inl ValidationError
      else if betAmount = 0 \<or> betAmount \<le> 0 then Inl InvalidAmount
      else Inr ())"

definition validateMarketState :: "market \<Rightarrow> error + unit" where
  "validateMarketState m =
     (if \<not> market_pool_initialized m then Inl PoolNotInitialized
      else if market_status m \<noteq> MARKET_STATUS_ACTIVE then Inl MarketNotActive
      else Inr ())"

definition validateUserBalance :: "profile \<Rightarrow> real \<Rightarrow> error + unit" where
  "validateUserBalance p betAmount =
     (if profile_balance p < betAmount then Inl InsufficientBalance
      else Inr ())"

text \<open>
  \<open>updatePosition\<close>. Neither the select nor the write is checked for an error by the
  source: a failed select is read as "no position", a failed write changes nothing.
  \<open>newShares\<close> is not checked against zero before the division.
\<close>

definition updatePosition ::
  "(db_call \<Rightarrow> bool) \<Rightarrow> string \<Rightarrow> string \<Rightarrow> string \<Rightarrow> real \<Rightarrow> real \<Rightarrow> real \<Rightarrow> database \<Rightarrow> database" where
  "updatePosition fails userId marketId outcome amount shares avgPrice db =
     (case select_position_row fails userId marketId outcome db of
        Some existing \<Rightarrow>
          (let newShares = position_shares existing + shares;
               newTotalInvested = position_total_invested existing + amount;
               newAvgPrice = newTotalInvested / newShares
           in if fails WritePosition then db
              else db \<lparr> positions :=
                     map (\<lambda>r. if position_id r = position_id existing
                              then r \<lparr> position_shares := newShares,
                                      position_avg_price := newAvgPrice,
                                      position_total_invested := newTotalInvested,
                                      position_current_value := newShares * avgPrice \<rparr>
                              else r) (positions db) \<rparr>)
      | None \<Rightarrow>
          (if fails WritePosition then db
           else db \<lparr> positions := positions db @
                  [\<lparr> position_id = length (positions db),
                     position_user_id = userId,
                     position_market_id = marketId,
                     position_outcome = outcome,
                     position_shares = shares,
                     position_avg_price = avgPrice,
                     position_total_invested = amount,
                     position_current_value = amount \<rparr>] \<rparr>))"

text \<open>The values \<open>placeBet\<close> hands to \<open>executeTransaction\<close>.\<close>

record settlement =
  tx_marketId :: string
  tx_userId :: string
  tx_outcome :: string
  tx_betAmount :: real
  tx_netAmount :: real
  tx_houseFee :: real
  tx_tokensReceived :: real
  tx_effectivePrice :: real
  tx_slippage :: real
  tx_priceBeforeBet :: real
  tx_yesPoolBefore :: real
  tx_noPoolBefore :: real
  tx_yesPoolAfter :: real
  tx_noPoolAfter :: real
  tx_newYesPrice :: real
  tx_newNoPrice :: real
  tx_market :: market
  tx_profile :: profile

text \<open>The \<open>data\<close> object of a successful bet.\<close>

record bet_result =
  result_betId :: nat
  result_marketId :: string
  result_outcome :: string
  result_grossAmount :: real
  result_netAmount :: real
  result_houseFee :: real
  result_tokensReceived :: real
  result_effectivePrice :: real
  result_slippage :: real
  result_priceBeforeBet :: real
  result_newYesPrice :: real
  result_newNoPrice :: real
  result_newYesPool :: real
  result_newNoPool :: real
  result_potentialPayout :: real
  result_potentialProfit :: real

definition BET_STATUS_MATCHED :: string where
  "BET_STATUS_MATCHED = ''matched''"

text \<open>\<open>parseFloat(market.total_volume || 0) + betAmount\<close>\<close>

definition new_total_volume :: "market \<Rightarrow> real \<Rightarrow> real" where
  "new_total_volume m amount = (case market_total_volume m of None \<Rightarrow> 0 | Some v \<Rightarrow> v) + amount"

definition market_change :: "settlement \<Rightarrow> market \<Rightarrow> market" where
  "market_change p row =
     row \<lparr> market_yes_pool := tx_yesPoolAfter p,
           market_no_pool := tx_noPoolAfter p,
           market_yes_price := tx_newYesPrice p,
           market_no_price := tx_newNoPrice p,
           market_total_volume := Some (new_total_volume (tx_market p) (tx_betAmount p)) \<rparr>"

definition bet_row :: "settlement \<Rightarrow> nat \<Rightarrow> bet" where
  "bet_row p i =
     \<lparr> bet_id = i,
       bet_market_id = tx_marketId p,
       bet_user_id = tx_userId p,
       bet_outcome = tx_outcome p,
       bet_amount = tx_betAmount p,
       bet_price = tx_priceBeforeBet p,
       bet_potential_return = tx_tokensReceived p,
       bet_status = BET_STATUS_MATCHED,
       bet_yes_pool_before = tx_yesPoolBefore p,
       bet_no_pool_before = tx_noPoolBefore p,
       bet_yes_pool_after = tx_yesPoolAfter p,
       bet_no_pool_after = tx_noPoolAfter p,
       bet_effective_price = tx_effectivePrice p,
       bet_slippage = tx_slippage p,
       bet_house_fee = tx_houseFee p \<rparr>"

definition transaction_of :: "settlement \<Rightarrow> real \<Rightarrow> bet \<Rightarrow> transaction_row" where
  "transaction_of p newBalance b =
     \<lparr> transaction_user_id = tx_userId p,
       transaction_type = ''bet'',
       transaction_amount = tx_betAmount p,
       transaction_balance_after = newBalance,
       transaction_reference_id = bet_id b \<rparr>"

definition price_point_of :: "settlement \<Rightarrow> bet \<Rightarrow> price_point" where
  "price_point_of p b =
     \<lparr> history_market_id = tx_marketId p,
       history_yes_price = tx_newYesPrice p,
       history_no_price = tx_newNoPrice p,
       history_yes_pool = tx_yesPoolAfter p,
       history_no_pool = tx_noPoolAfter p,
       history_total_volume = new_total_volume (tx_market p) (tx_betAmount p),
       history_bet_id = bet_id b \<rparr>"

definition result_of :: "settlement \<Rightarrow> bet \<Rightarrow> bet_result" where
  "result_of p b =
     \<lparr> result_betId = bet_id b,
       result_marketId = tx_marketId p,
       result_outcome = tx_outcome p,
       result_grossAmount = tx_betAmount p,
       result_netAmount = tx_netAmount p,
       result_houseFee = tx_houseFee p,
       result_tokensReceived = tx_tokensReceived p,
       result_effectivePrice = tx_effectivePrice p,
       result_slippage = tx_slippage p,
       result_priceBeforeBet = tx_priceBeforeBet p,
       result_newYesPrice = tx_newYesPrice p,
       result_newNoPrice = tx_newNoPrice p,
       result_newYesPool = tx_yesPoolAfter p,
       result_newNoPool = tx_noPoolAfter p,
       result_potentialPayout = tx_tokensReceived p,
       result_potentialProfit = tx_tokensReceived p - tx_betAmount p \<rparr>"

text \<open>
  \<open>executeTransaction\<close>: six writes, one after another. The first three are checked and
  raise the error the database returned; the position upsert, the transaction insert and
  the price-history insert are awaited without a check.
\<close>

definition executeTransaction ::
  "(db_call \<Rightarrow> bool) \<Rightarrow> settlement \<Rightarrow> database \<Rightarrow> (error + bet_result) \<times> database" where
  "executeTransaction fails p db =
     (case update_market_row fails (tx_marketId p) (market_change p) db of
        (Some updateError, db1) \<Rightarrow> (Inl updateError, db1)
      | (None, db1) \<Rightarrow>
     (case insert_bet_row fails (bet_row p) db1 of
        (Inl betError, db2) \<Rightarrow> (Inl betError, db2)
      | (Inr b, db2) \<Rightarrow>
     (let newBalance = profile_balance (tx_profile p) - tx_betAmount p
      in
     (case update_profile_row fails (tx_userId p) newBalance db2 of
        (Some balanceError, db3) \<Rightarrow> (Inl balanceError, db3)
      | (None, db3) \<Rightarrow>
     (let db4 = updatePosition fails (tx_userId p) (tx_marketId p) (tx_outcome p)
                  (tx_netAmount p) (tx_tokensReceived p) (tx_effectivePrice p) db3;
          db5 = snd (insert_transaction_row fails (transaction_of p newBalance b) db4);
          db6 = snd (insert_price_point fails (price_point_of p b) db5)
      in (Inr (result_of p b), db6))))))"



text \<open>
  Step 8 of \<open>placeBet\<close>, "Verify constant product is maintained":
  \<open>if (Math.abs(newK - k) > 0.01) throw ...\<close>.
\<close>

definition verifyConstantProduct :: "real \<Rightarrow> real \<Rightarrow> real \<Rightarrow> error + unit" where
  "verifyConstantProduct yesAfter noAfter k =
     (let newK = yesAfter * noAfter
      in if \<bar>newK - k\<bar> > 0.01 then Inl InvariantViolation
         else Inr ())"

text \<open>
  Steps 3 to 8 of \<open>placeBet\<close>: the fee, the pool check before the trade, the tokens, the
  prices and the product check after the trade. Nothing is written here.
\<close>

definition placeBet_pricing ::
  "real \<Rightarrow> string \<Rightarrow> string \<Rightarrow> string \<Rightarrow> real \<Rightarrow> market \<Rightarrow> profile \<Rightarrow> error + settlement" where
  "placeBet_pricing houseMargin mId uId oc amount m pr =
     (case applyMargin houseMargin amount of
        Inl e \<Rightarrow> Inl e
      | Inr mg \<Rightarrow>
     (let net = margin_netAmount mg;
          fee = margin_houseFee mg;
          yesBefore = market_yes_pool m;
          noBefore = market_no_pool m;
          k = market_liquidity_constant m
      in
     (case validatePoolState yesBefore noBefore k of
        Inl e \<Rightarrow> Inl e
      | Inr _ \<Rightarrow>
     (case (if oc = OUTCOMES_YES then calculateYesPrice yesBefore noBefore
            else calculateNoPrice yesBefore noBefore) of
        Inl e \<Rightarrow> Inl e
      | Inr priceBefore \<Rightarrow>
     (case (if oc = OUTCOMES_YES then calculateTokensReceived net noBefore yesBefore k
            else calculateTokensReceived net yesBefore noBefore k) of
        Inl e \<Rightarrow> Inl e
      | Inr tokens \<Rightarrow>
     (let yesAfter = (if oc = OUTCOMES_YES then yesBefore - tokens else yesBefore + net);
          noAfter = (if oc = OUTCOMES_YES then noBefore + net else noBefore - tokens)
      in
     (case calculateEffectivePrice net tokens of
        Inl e \<Rightarrow> Inl e
      | Inr effective \<Rightarrow>
     (case calculateYesPrice yesAfter noAfter of
        Inl e \<Rightarrow> Inl e
      | Inr yesPrice' \<Rightarrow>
     (case calculateNoPrice yesAfter noAfter of
        Inl e \<Rightarrow> Inl e
      | Inr noPrice' \<Rightarrow>
     (case verifyConstantProduct yesAfter noAfter k of
        Inl e \<Rightarrow> Inl e
      | Inr _ \<Rightarrow>
          Inr \<lparr> tx_marketId = mId,
                tx_userId = uId,
                tx_outcome = oc,
                tx_betAmount = amount,
                tx_netAmount = net,
                tx_houseFee = fee,
                tx_tokensReceived = tokens,
                tx_effectivePrice = effective,
                tx_slippage = calculateSlippage priceBefore effective,
                tx_priceBeforeBet = priceBefore,
                tx_yesPoolBefore = yesBefore,
                tx_noPoolBefore = noBefore,
                tx_yesPoolAfter = yesAfter,
                tx_noPoolAfter = noAfter,
                tx_newYesPrice = yesPrice',
                tx_newNoPrice = noPrice',
                tx_market = m,
                tx_profile = pr \<rparr>))))))))))"

text \<open>
  \<open>placeBet\<close>. The first argument says which database calls fail, the second is the
  \<open>HOUSE_MARGIN\<close> of the margin service. An error of \<open>executeTransaction\<close> is caught and
  raised again as "Bet processing failed".
\<close>

definition placeBet ::
  "(db_call \<Rightarrow> bool) \<Rightarrow> real \<Rightarrow> string \<Rightarrow> string \<Rightarrow> string \<Rightarrow> real \<Rightarrow> database
     \<Rightarrow> (error + bet_result) \<times> database" where
  "placeBet fails houseMargin mId uId oc amount db =
     (case validateBetInputs mId uId oc amount of
        Inl e \<Rightarrow> (Inl e, db)
      | Inr _ \<Rightarrow>
     (case getMarket fails mId db of
        Inl e \<Rightarrow> (Inl e, db)
      | Inr m \<Rightarrow>
     (case validateMarketState m of
        Inl e \<Rightarrow> (Inl e, db)
      | Inr _ \<Rightarrow>
     (case getUserProfile fails uId db of
        Inl e \<Rightarrow> (Inl e, db)
      | Inr pr \<Rightarrow>
     (case validateUserBalance pr amount of
        Inl e \<Rightarrow> (Inl e, db)
      | Inr _ \<Rightarrow>
     (case placeBet_pricing houseMargin mId uId oc amount m pr of
        Inl e \<Rightarrow> (Inl e, db)
      | Inr p \<Rightarrow>
     (case executeTransaction fails p db of
        (Inl e, db') \<Rightarrow> (Inl BetProcessingFailed, db')
      | (Inr r, db') \<Rightarrow> (Inr r, db'))))))))"

text \<open>
  Scenario A: one active market with pools of 1000 each and \<open>k = 1000000\<close>, one user with
  a balance of 500, no bets and no positions yet.
\<close>

definition scenarioA_market :: market where
  "scenarioA_market =
     \<lparr> market_status = ''active'',
       market_pool_initialized = True,
       market_yes_pool = 1000,
       market_no_pool = 1000,
       market_liquidity_constant = 1000000,
       market_yes_price = 0.5,
       market_no_price = 0.5,
       market_total_volume = None \<rparr>"

definition scenarioA_db :: database where
  "scenarioA_db =
     \<lparr> markets = [''m1'' \<mapsto> scenarioA_market],
       profiles = [''u1'' \<mapsto> \<lparr> profile_balance = 500 \<rparr>],
       bets = [],
       positions = [],
       transactions = [],
       price_history = [] \<rparr>"

definition no_failure :: "db_call \<Rightarrow> bool" where
  "no_failure c = False"

definition only_fails :: "db_call \<Rightarrow> db_call \<Rightarrow> bool" where
  "only_fails c c' = (c' = c)"


text \<open>What steps 3 to 8 of \<open>placeBet\<close> compute in scenario A for a bet of 100 on yes.\<close>

definition scenarioA_settlement :: settlement where
  "scenarioA_settlement =
     \<lparr> tx_marketId = ''m1'', tx_userId = ''u1'', tx_outcome = ''yes'',
       tx_betAmount = 100, tx_netAmount = 98, tx_houseFee = 2,
       tx_tokensReceived = 1000 - 1000000 / 1098, tx_effectivePrice = 549 / 1049,
       tx_slippage = 49 / 1049, tx_priceBeforeBet = 1 / 2,
       tx_yesPoolBefore = 1000, tx_noPoolBefore = 1000,
       tx_yesPoolAfter = 500000 / 549, tx_noPoolAfter = 1098,
       tx_newYesPrice = 301401 / 551401, tx_newNoPrice = 250000 / 551401,
       tx_market = scenarioA_market, tx_profile = \<lparr> profile_balance = 500 \<rparr> \<rparr>"


section \<open>Pricing engine: results\<close>

text \<open>
  C3. For every bet amount and every pool with \<open>inputReserve + betNet \<noteq> 0\<close> (where the
  quotient of the claim is defined), \<open>calculateTokensReceived\<close> fails with
  \<open>InvalidAmount\<close> if \<open>betNet \<le> 0\<close>; otherwise, with
  \<open>tokensOut = outputReserve - k / (inputReserve + betNet)\<close>, it fails with
  \<open>PoolExhausted\<close> if \<open>tokensOut \<ge> outputReserve\<close> or \<open>tokensOut \<le> 0\<close>, and in every
  remaining case it returns exactly \<open>tokensOut\<close>.
\<close>

theorem tokensOut_cases:
  assumes "inputReserve + betNet \<noteq> 0"
  shows "calculateTokensReceived betNet inputReserve outputReserve k =
     (if betNet \<le> 0 then Inl InvalidAmount
      else if outputReserve - k / (inputReserve + betNet) \<ge> outputReserve
              \<or> outputReserve - k / (inputReserve + betNet) \<le> 0
           then Inl PoolExhausted
      else Inr (outputReserve - k / (inputReserve + betNet)))"
  by (simp add: calculateTokensReceived_def Let_def)

theorem tokensOut_cases_witness:
  "(1000::real) + 100 \<noteq> 0
   \<and> calculateTokensReceived 100 1000 1000 1000000 = Inr (1000 - 1000000 / 1100)
   \<and> calculateTokensReceived (-5) 1000 1000 1000000 = Inl InvalidAmount
   \<and> calculateTokensReceived 100 1000 1000 (-7) = Inl PoolExhausted
   \<and> calculateTokensReceived 100 1000 1000 2000000 = Inl PoolExhausted"
proof -
  have a: "(1000::real) + 100 \<noteq> 0" by simp
  have b: "(1000::real) + (-5) \<noteq> 0" by simp
  show ?thesis
    using tokensOut_cases [OF a, of 1000 1000000] tokensOut_cases [OF b, of 1000 1000000]
      tokensOut_cases [OF a, of 1000 "-7"] tokensOut_cases [OF a, of 1000 2000000]
    by simp
qed

text \<open>
  Both price functions fail on a total of zero. What they return on other totals is a
  rounded quotient in the source and an exact one here, so no bound on the returned
  prices is stated.
\<close>

lemma price_zero_total:
  assumes "yesPool + noPool = 0"
  shows "calculateYesPrice yesPool noPool = Inl DegeneratePool"
    and "calculateNoPrice yesPool noPool = Inl DegeneratePool"
  using assms by (simp_all add: calculateYesPrice_def calculateNoPrice_def)


subsection \<open>Monotonicity\<close>

text \<open>
  The tokens of a successful \<open>simulateBet\<close> are those of \<open>calculateTokensReceived\<close> on
  the pool the bet is added to (\<open>i\<close>) and the pool the tokens are taken from (\<open>out\<close>).
\<close>

lemma simulateBet_tokens:
  assumes "simulateBet oc b y n k = Inr r"
  shows "calculateTokensReceived b (if oc = ''yes'' then n else y) (if oc = ''yes'' then y else n) k
        = Inr (sim_tokensReceived r)"
  using assms
  by (auto simp add: simulateBet_def Let_def split: sum.splits if_splits)

lemma tokens_closed:
  assumes "calculateTokensReceived b i out k = Inr t" and "0 < i"
  shows "0 < b \<and> t = out - k / (i + b) \<and> 0 < t \<and> t < out \<and> 0 < k"
proof -
  have b: "0 < b" and t: "t = out - k / (i + b)" and r: "0 < t" "t < out"
    using assms(1) by (auto simp add: calculateTokensReceived_def Let_def split: if_splits)
  have "0 < k / (i + b)" using t r by simp
  moreover have "0 < i + b" using b assms(2) by simp
  ultimately have "0 < k" by (simp add: zero_less_divide_iff)
  then show ?thesis using b t r by simp
qed

text \<open>
  C8, as the source has it. For fixed positive reserves and fixed \<open>k\<close>, a larger bet
  that succeeds never receives fewer tokens than a smaller bet that succeeds. Nothing is
  stated about the order of the slippages: the source rounds every operation, and the
  slippage of a larger bet can be the smaller one.
\<close>

theorem bet_monotone:
  assumes pos: "0 < yesPool" "0 < noPool"
    and r1: "simulateBet oc b1 yesPool noPool k = Inr r1"
    and r2: "simulateBet oc b2 yesPool noPool k = Inr r2"
    and lt: "b1 < b2"
  shows "sim_tokensReceived r1 \<le> sim_tokensReceived r2"
proof -
  define i where "i = (if oc = ''yes'' then noPool else yesPool)"
  define out where "out = (if oc = ''yes'' then yesPool else noPool)"
  have io: "0 < i"
    using pos by (simp add: i_def)
  note t1 = tokens_closed [OF simulateBet_tokens [OF r1, folded i_def out_def] io]
  note t2 = tokens_closed [OF simulateBet_tokens [OF r2, folded i_def out_def] io]
  have b: "0 < b1" "0 < k" using t1 by simp_all
  have "k / (i + b2) \<le> k / (i + b1)"
    using b io lt by (simp add: frac_le)
  then show ?thesis
    using t1 t2 by simp
qed

lemmas simulate_defs = simulateBet_def calculateYesPrice_def calculateNoPrice_def
  calculateTokensReceived_def calculateEffectivePrice_def calculateSlippage_def
  calculatePriceImpact_def Let_def

theorem bet_monotone_witness:
  "simulateBet ''yes'' 98 1000 1000 1000000 =
     Inr \<lparr> sim_tokensReceived = 49000 / 549, sim_effectivePrice = 549 / 1049,
           sim_slippage = 49 / 1049, sim_priceImpact = 51401 / 551401,
           sim_priceBeforeBet = 1 / 2, sim_priceAfterBet = 301401 / 551401,
           sim_newYesPrice = 301401 / 551401, sim_newNoPrice = 250000 / 551401,
           sim_newYesPool = 500000 / 549, sim_newNoPool = 1098, sim_newK = 1000000 \<rparr>
   \<and> simulateBet ''yes'' 100 1000 1000 1000000 =
     Inr \<lparr> sim_tokensReceived = 1000 / 11, sim_effectivePrice = 11 / 21,
           sim_slippage = 1 / 21, sim_priceImpact = 21 / 221,
           sim_priceBeforeBet = 1 / 2, sim_priceAfterBet = 121 / 221,
           sim_newYesPrice = 121 / 221, sim_newNoPrice = 100 / 221,
           sim_newYesPool = 10000 / 11, sim_newNoPool = 1100, sim_newK = 1000000 \<rparr>
   \<and> (49000 / 549 :: real) \<le> 1000 / 11"
proof -
  have a: "simulateBet ''yes'' 98 1000 1000 1000000 =
     Inr \<lparr> sim_tokensReceived = 49000 / 549, sim_effectivePrice = 549 / 1049,
           sim_slippage = 49 / 1049, sim_priceImpact = 51401 / 551401,
           sim_priceBeforeBet = 1 / 2, sim_priceAfterBet = 301401 / 551401,
           sim_newYesPrice = 301401 / 551401, sim_newNoPrice = 250000 / 551401,
           sim_newYesPool = 500000 / 549, sim_newNoPool = 1098, sim_newK = 1000000 \<rparr>"
    by (simp add: simulate_defs)
  have b: "simulateBet ''yes'' 100 1000 1000 1000000 =
     Inr \<lparr> sim_tokensReceived = 1000 / 11, sim_effectivePrice = 11 / 21,
           sim_slippage = 1 / 21, sim_priceImpact = 21 / 221,
           sim_priceBeforeBet = 1 / 2, sim_priceAfterBet = 121 / 221,
           sim_newYesPrice = 121 / 221, sim_newNoPrice = 100 / 221,
           sim_newYesPool = 10000 / 11, sim_newNoPool = 1100, sim_newK = 1000000 \<rparr>"
    by (simp add: simulate_defs)
  have p: "(0::real) < 1000" and lt: "(98::real) < 100" by simp_all
  show ?thesis
    using bet_monotone [OF p p a b lt] a b by simp
qed

text \<open>
  C8 as stated claims increasing slippage for every fixed \<open>k\<close>. With reserves of 1000 each
  and \<open>k = 999999\<close>, a pool that \<open>validatePoolState\<close> accepts, a bet of 0.5 has
  slippage \<open>1 / 1335\<close> and the larger bet of 1 has slippage 0.
\<close>

theorem slippage_not_monotone:
  "simulateBet ''yes'' (1 / 2) 1000 1000 999999 =
     Inr \<lparr> sim_tokensReceived = 334 / 667, sim_effectivePrice = 667 / 1335,
           sim_slippage = 1 / 1335, sim_priceImpact = 445 / 889333,
           sim_priceBeforeBet = 1 / 2, sim_priceAfterBet = 444889 / 889333,
           sim_newYesPrice = 444889 / 889333, sim_newNoPrice = 444444 / 889333,
           sim_newYesPool = 666666 / 667, sim_newNoPool = 2001 / 2, sim_newK = 999999 \<rparr>
   \<and> simulateBet ''yes'' 1 1000 1000 999999 =
     Inr \<lparr> sim_tokensReceived = 1, sim_effectivePrice = 1 / 2,
           sim_slippage = 0, sim_priceImpact = 1 / 1000,
           sim_priceBeforeBet = 1 / 2, sim_priceAfterBet = 1001 / 2000,
           sim_newYesPrice = 1001 / 2000, sim_newNoPrice = 999 / 2000,
           sim_newYesPool = 999, sim_newNoPool = 1001, sim_newK = 999999 \<rparr>
   \<and> validatePoolState 1000 1000 999999 = Inr True"
  by (simp add: simulate_defs validatePoolState_def)


subsection \<open>The product checks\<close>

text \<open>
  On positive reserves and positive \<open>k\<close> the check before the trade compares the relative
  difference with 0.0001. The check after the trade compares the absolute difference
  with 0.01. In exact arithmetic a trade leaves the product equal to \<open>k\<close>, so the second
  check only ever sees rounding error.
\<close>

lemma validatePoolState_relative:
  assumes "0 < yesPool" "0 < noPool" "0 < k"
  shows "validatePoolState yesPool noPool k =
           (if \<bar>yesPool * noPool - k\<bar> / k > 0.0001 then Inl InvariantViolation else Inr True)"
proof -
  have "(\<bar>yesPool * noPool - k\<bar> / k * 100 > 0.01) = (\<bar>yesPool * noPool - k\<bar> / k > 0.0001)"
    by (simp add: field_simps)
  then show ?thesis
    using assms by (simp add: validatePoolState_def Let_def)
qed

lemma verifyConstantProduct_absolute:
  "verifyConstantProduct yesAfter noAfter k =
     (if \<bar>yesAfter * noAfter - k\<bar> > 0.01 then Inl InvariantViolation else Inr ())"
  by (simp add: verifyConstantProduct_def)

lemma trade_keeps_product:
  assumes "calculateTokensReceived b i out k = Inr t" and "i + b \<noteq> 0"
  shows "(out - t) * (i + b) = k"
  using assms
  by (auto simp add: calculateTokensReceived_def Let_def split: if_splits)

text \<open>
  C2 at two inputs of the check after the trade. A product of 1000000.5 against
  \<open>k = 1000000\<close> is rejected although the relative difference is 0.0000005 and the check
  before the trade accepts the same pool. A product of 1.005 against \<open>k = 1\<close> is accepted
  although the relative difference is 0.005 and the check before the trade rejects it.
\<close>

theorem post_trade_check_absolute:
  "verifyConstantProduct 1000 1000.0005 1000000 = Inl InvariantViolation
   \<and> \<bar>1000 * 1000.0005 - 1000000\<bar> / 1000000 \<le> (0.0001 :: real)
   \<and> validatePoolState 1000 1000.0005 1000000 = Inr True
   \<and> verifyConstantProduct 1 1.005 1 = Inr ()
   \<and> \<bar>1 * 1.005 - 1\<bar> / 1 > (0.0001 :: real)
   \<and> validatePoolState 1 1.005 1 = Inl InvariantViolation"
  by (simp add: verifyConstantProduct_def validatePoolState_def)


section \<open>Odds converter: results\<close>

text \<open>
  C9, as the source has it. \<open>calculateOddsFromVolume\<close> returns 2.0 for both sides when
  the total is 0. Otherwise it computes the shares \<open>noVolume / total\<close> and
  \<open>yesVolume / total\<close>; when one of them is at most 0 or at least 1 the call fails, and
  in every remaining case it returns the odds \<open>1 / (noVolume / total)\<close> and
  \<open>1 / (yesVolume / total)\<close>. For nonnegative volumes with exactly one side empty the
  shares are 0 and 1, so the call fails.
\<close>

theorem oddsFromVolume_cases:
  "calculateOddsFromVolume yesVolume noVolume =
     (if yesVolume + noVolume = 0 then Inr \<lparr> yesOdds = 2, noOdds = 2 \<rparr>
      else if noVolume / (yesVolume + noVolume) \<le> 0
              \<or> noVolume / (yesVolume + noVolume) \<ge> 1
              \<or> yesVolume / (yesVolume + noVolume) \<le> 0
              \<or> yesVolume / (yesVolume + noVolume) \<ge> 1
           then Inl ProbabilityOutOfRange
      else Inr \<lparr> yesOdds = 1 / (noVolume / (yesVolume + noVolume)),
                 noOdds = 1 / (yesVolume / (yesVolume + noVolume)) \<rparr>)
   \<and> (0 \<le> yesVolume \<and> 0 \<le> noVolume \<and> yesVolume + noVolume \<noteq> 0
        \<and> (yesVolume = 0 \<or> noVolume = 0) \<longrightarrow>
          calculateOddsFromVolume yesVolume noVolume = Inl ProbabilityOutOfRange)"
proof (intro conjI impI)
  show "calculateOddsFromVolume yesVolume noVolume =
     (if yesVolume + noVolume = 0 then Inr \<lparr> yesOdds = 2, noOdds = 2 \<rparr>
      else if noVolume / (yesVolume + noVolume) \<le> 0
              \<or> noVolume / (yesVolume + noVolume) \<ge> 1
              \<or> yesVolume / (yesVolume + noVolume) \<le> 0
              \<or> yesVolume / (yesVolume + noVolume) \<ge> 1
           then Inl ProbabilityOutOfRange
      else Inr \<lparr> yesOdds = 1 / (noVolume / (yesVolume + noVolume)),
                 noOdds = 1 / (yesVolume / (yesVolume + noVolume)) \<rparr>)"
    unfolding calculateOddsFromVolume_def probabilityToOdds_def Let_def
    by (simp split: if_splits)
next
  assume h: "0 \<le> yesVolume \<and> 0 \<le> noVolume \<and> yesVolume + noVolume \<noteq> 0
        \<and> (yesVolume = 0 \<or> noVolume = 0)"
  then consider "yesVolume = 0" "noVolume \<noteq> 0" | "noVolume = 0" "yesVolume \<noteq> 0"
    by auto
  then show "calculateOddsFromVolume yesVolume noVolume = Inl ProbabilityOutOfRange"
  proof cases
    case 1
    then show ?thesis
      by (simp add: calculateOddsFromVolume_def probabilityToOdds_def)
  next
    case 2
    then show ?thesis
      by (simp add: calculateOddsFromVolume_def probabilityToOdds_def)
  qed
qed

theorem oddsFromVolume_cases_witness:
  "calculateOddsFromVolume 0 0 = Inr \<lparr> yesOdds = 2, noOdds = 2 \<rparr>
   \<and> calculateOddsFromVolume 30 10 = Inr \<lparr> yesOdds = 4, noOdds = 4 / 3 \<rparr>
   \<and> calculateOddsFromVolume 0 5 = Inl ProbabilityOutOfRange
   \<and> calculateOddsFromVolume 5 0 = Inl ProbabilityOutOfRange"
  using oddsFromVolume_cases [of 0 0] oddsFromVolume_cases [of 30 10]
    oddsFromVolume_cases [of 0 5] oddsFromVolume_cases [of 5 0]
  by simp

text \<open>
  C9 as stated asks for odds on every nonnegative pair, also where one side is empty.
  With no volume on one side and 5 on the other, the call fails and no odds are returned.
\<close>

theorem oddsFromVolume_one_side_empty:
  "calculateOddsFromVolume 0 5 = Inl ProbabilityOutOfRange
   \<and> calculateOddsFromVolume 5 0 = Inl ProbabilityOutOfRange"
  by (simp add: calculateOddsFromVolume_def probabilityToOdds_def)


section \<open>Liquidity pool: results\<close>

text \<open>
  C10. With a target price strictly between 0 and 1, \<open>initializeAsymmetricPool\<close> fails
  with the pool-size error exactly when \<open>totalLiquidity / 2\<close> is below 100 or above
  100000, and succeeds otherwise. A call with \<open>totalLiquidity < 200\<close> fails whatever the
  target price is.
\<close>

theorem asymmetric_pool_size:
  "(0 < targetYesPrice \<and> targetYesPrice < 1 \<longrightarrow>
      (initializeAsymmetricPool totalLiquidity targetYesPrice = Inl PoolSizeOutOfRange
         \<longleftrightarrow> totalLiquidity / 2 < 100 \<or> totalLiquidity / 2 > 100000)
      \<and> (\<not> (totalLiquidity / 2 < 100 \<or> totalLiquidity / 2 > 100000) \<longrightarrow>
           (\<exists>pool. initializeAsymmetricPool totalLiquidity targetYesPrice = Inr pool)))
   \<and> (totalLiquidity < 200 \<longrightarrow>
        (\<exists>e. initializeAsymmetricPool totalLiquidity targetYesPrice = Inl e))"
  by (auto simp add: initializeAsymmetricPool_def validatePoolSize_def MIN_POOL_SIZE_def
      MAX_POOL_SIZE_def calculateYesPrice_def Let_def)

theorem asymmetric_pool_size_witness:
  "initializeAsymmetricPool 150 0.7 = Inl PoolSizeOutOfRange
   \<and> initializeAsymmetricPool 200002 0.7 = Inl PoolSizeOutOfRange
   \<and> (\<exists>pool. initializeAsymmetricPool 2000 0.7 = Inr pool)
   \<and> (\<exists>e. initializeAsymmetricPool 199 0.5 = Inl e)"
  using asymmetric_pool_size [of "0.7" 150] asymmetric_pool_size [of "0.7" 200002]
    asymmetric_pool_size [of "0.7" 2000] asymmetric_pool_size [of "0.5" 199]
  by simp


section \<open>Betting service: results\<close>

subsection \<open>The steps of a bet\<close>

lemma placeBet_pricing_fields:
  assumes "placeBet_pricing hm mId uId oc amount m pr = Inr p"
  shows "tx_marketId p = mId" "tx_userId p = uId" "tx_outcome p = oc" "tx_betAmount p = amount"
    "tx_market p = m" "tx_profile p = pr" "tx_netAmount p = amount - amount * hm" "0 < amount"
  using assms
  by (auto simp add: placeBet_pricing_def applyMargin_def Let_def split: sum.splits if_splits)

lemma getMarket_Inr: "getMarket fails mId db = Inr m \<Longrightarrow> markets db mId = Some m"
  by (auto simp add: getMarket_def split: if_splits option.splits)

lemma getUserProfile_Inr: "getUserProfile fails uId db = Inr pr \<Longrightarrow> profiles db uId = Some pr"
  by (auto simp add: getUserProfile_def split: if_splits option.splits)

text \<open>A bet that passes validation and pricing is decided by \<open>executeTransaction\<close>.\<close>

lemma placeBet_commit:
  assumes "validateBetInputs mId uId oc amount = Inr ()"
    and "getMarket fails mId db = Inr m"
    and "validateMarketState m = Inr ()"
    and "getUserProfile fails uId db = Inr pr"
    and "validateUserBalance pr amount = Inr ()"
    and "placeBet_pricing hm mId uId oc amount m pr = Inr p"
  shows "placeBet fails hm mId uId oc amount db =
           (case executeTransaction fails p db of
              (Inl e, db') \<Rightarrow> (Inl BetProcessingFailed, db')
            | (Inr r, db') \<Rightarrow> (Inr r, db'))"
  using assms by (simp add: placeBet_def)

text \<open>\<open>executeTransaction\<close> on a market row and a profile row that exist, write by write.\<close>

lemma executeTransaction_steps:
  assumes m: "markets db (tx_marketId p) = Some m"
    and u: "profiles db (tx_userId p) = Some pr"
  shows "executeTransaction fails p db =
     (if fails UpdateMarket then (Inl PersistenceFailure, db)
      else
        let db1 = db \<lparr> markets := (markets db)(tx_marketId p \<mapsto> market_change p m) \<rparr>
        in if fails InsertBet then (Inl PersistenceFailure, db1)
           else
             let b = bet_row p (length (bets db));
                 db2 = db1 \<lparr> bets := bets db @ [b] \<rparr>;
                 newBalance = profile_balance (tx_profile p) - tx_betAmount p
             in if fails UpdateProfile then (Inl PersistenceFailure, db2)
                else
                  let db3 = db2 \<lparr> profiles :=
                              (profiles db)(tx_userId p \<mapsto> pr \<lparr> profile_balance := newBalance \<rparr>) \<rparr>;
                      db4 = updatePosition fails (tx_userId p) (tx_marketId p) (tx_outcome p)
                              (tx_netAmount p) (tx_tokensReceived p) (tx_effectivePrice p) db3;
                      db5 = (if fails InsertTransaction then db4
                             else db4 \<lparr> transactions :=
                                    transactions db4 @ [transaction_of p newBalance b] \<rparr>);
                      db6 = (if fails InsertPriceHistory then db5
                             else db5 \<lparr> price_history :=
                                    price_history db5 @ [price_point_of p b] \<rparr>)
                  in (Inr (result_of p b), db6))"
  using m u
  by (simp add: executeTransaction_def update_market_row_def insert_bet_row_def
      update_profile_row_def insert_transaction_row_def insert_price_point_def Let_def)

lemma updatePosition_other_tables:
  "markets (updatePosition fails u m oc a s e db) = markets db"
  "profiles (updatePosition fails u m oc a s e db) = profiles db"
  "bets (updatePosition fails u m oc a s e db) = bets db"
  "transactions (updatePosition fails u m oc a s e db) = transactions db"
  "price_history (updatePosition fails u m oc a s e db) = price_history db"
  by (simp_all add: updatePosition_def Let_def split: option.splits)

lemma updatePosition_first:
  assumes "positions db = []" and "\<not> fails WritePosition"
  shows "updatePosition fails u mk oc a sh e db
      = db \<lparr> positions := [\<lparr> position_id = 0, position_user_id = u,
                         position_market_id = mk, position_outcome = oc,
                         position_shares = sh,
                         position_avg_price = e,
                         position_total_invested = a,
                         position_current_value = a \<rparr>] \<rparr>"
  using assms by (simp add: updatePosition_def select_position_row_def)

text \<open>The update branch of \<open>updatePosition\<close> stores \<open>total_invested / shares\<close>.\<close>

lemma updatePosition_existing_avg:
  assumes "select_position_row fails u mk oc db = Some ex" and "\<not> fails WritePosition"
  shows "\<forall>r \<in> set (positions (updatePosition fails u mk oc a sh e db)).
           position_id r = position_id ex \<longrightarrow>
             position_shares r = position_shares ex + sh
             \<and> position_total_invested r = position_total_invested ex + a
             \<and> position_avg_price r = position_total_invested r / position_shares r"
  using assms by (auto simp add: updatePosition_def Let_def)

lemma HOUSE_MARGIN_range: "0.001 \<le> HOUSE_MARGIN env \<and> HOUSE_MARGIN env \<le> 0.1"
  by (auto simp add: HOUSE_MARGIN_def MIN_MARGIN_def MAX_MARGIN_def Let_def split: option.splits)

lemma HOUSE_MARGIN_pos: "0 < HOUSE_MARGIN env"
  by (auto simp add: HOUSE_MARGIN_def MIN_MARGIN_def MAX_MARGIN_def Let_def split: option.splits)


subsection \<open>Scenario A\<close>

lemmas pricing_defs = placeBet_pricing_def applyMargin_def validatePoolState_def
  calculateYesPrice_def calculateNoPrice_def calculateTokensReceived_def
  calculateEffectivePrice_def calculateSlippage_def verifyConstantProduct_def
  OUTCOMES_YES_def OUTCOMES_NO_def HOUSE_MARGIN_def MIN_MARGIN_def MAX_MARGIN_def Let_def

lemma scenarioA_pricing:
  "placeBet_pricing (HOUSE_MARGIN None) ''m1'' ''u1'' ''yes'' 100 scenarioA_market
     \<lparr> profile_balance = 500 \<rparr> = Inr scenarioA_settlement"
  by (simp add: pricing_defs scenarioA_market_def scenarioA_settlement_def)

lemma scenarioA_reaches_commit:
  assumes "\<not> fails SelectMarket" "\<not> fails SelectProfile"
  shows "validateBetInputs ''m1'' ''u1'' ''yes'' 100 = Inr ()"
    "getMarket fails ''m1'' scenarioA_db = Inr scenarioA_market"
    "validateMarketState scenarioA_market = Inr ()"
    "getUserProfile fails ''u1'' scenarioA_db = Inr \<lparr> profile_balance = 500 \<rparr>"
    "validateUserBalance \<lparr> profile_balance = 500 \<rparr> 100 = Inr ()"
  using assms
  by (simp_all add: validateBetInputs_def getMarket_def validateMarketState_def
      getUserProfile_def validateUserBalance_def scenarioA_db_def scenarioA_market_def
      OUTCOMES_YES_def OUTCOMES_NO_def MARKET_STATUS_ACTIVE_def)

lemma scenarioA_tables:
  "positions scenarioA_db = []" "bets scenarioA_db = []"
  "transactions scenarioA_db = []" "price_history scenarioA_db = []"
  "markets scenarioA_db = [''m1'' \<mapsto> scenarioA_market]"
  "profiles scenarioA_db = [''u1'' \<mapsto> \<lparr> profile_balance = 500 \<rparr>]"
  by (simp_all add: scenarioA_db_def)

lemma scenarioA_settlement_keys:
  "tx_marketId scenarioA_settlement = ''m1''" "tx_userId scenarioA_settlement = ''u1''"
  "tx_outcome scenarioA_settlement = ''yes''" "tx_betAmount scenarioA_settlement = 100"
  "tx_netAmount scenarioA_settlement = 98"
  "tx_tokensReceived scenarioA_settlement = 1000 - 1000000 / 1098"
  "tx_effectivePrice scenarioA_settlement = 549 / 1049"
  "tx_profile scenarioA_settlement = \<lparr> profile_balance = 500 \<rparr>"
  "tx_market scenarioA_settlement = scenarioA_market"
  by (simp_all add: scenarioA_settlement_def)

lemma scenarioA_placeBet:
  "placeBet no_failure (HOUSE_MARGIN None) ''m1'' ''u1'' ''yes'' 100 scenarioA_db
     = (Inr (result_of scenarioA_settlement (bet_row scenarioA_settlement 0)),
        \<lparr> markets = [''m1'' \<mapsto> market_change scenarioA_settlement scenarioA_market],
          profiles = [''u1'' \<mapsto> \<lparr> profile_balance = 400 \<rparr>],
          bets = [bet_row scenarioA_settlement 0],
          positions = [\<lparr> position_id = 0, position_user_id = ''u1'',
                         position_market_id = ''m1'', position_outcome = ''yes'',
                         position_shares = 1000 - 1000000 / 1098,
                         position_avg_price = 549 / 1049,
                         position_total_invested = 98,
                         position_current_value = 98 \<rparr>],
          transactions = [transaction_of scenarioA_settlement 400 (bet_row scenarioA_settlement 0)],
          price_history = [price_point_of scenarioA_settlement (bet_row scenarioA_settlement 0)] \<rparr>)"
proof -
  have n: "\<not> no_failure c" for c
    by (simp add: no_failure_def)
  have mk: "markets scenarioA_db (tx_marketId scenarioA_settlement) = Some scenarioA_market"
    and pk: "profiles scenarioA_db (tx_userId scenarioA_settlement) = Some \<lparr> profile_balance = 500 \<rparr>"
    by (simp_all add: scenarioA_tables scenarioA_settlement_keys)
  show ?thesis
    unfolding placeBet_commit [OF scenarioA_reaches_commit [OF n n] scenarioA_pricing]
      executeTransaction_steps [OF mk pk]
    by (simp add: n Let_def scenarioA_settlement_keys scenarioA_tables updatePosition_first)
qed

lemma scenarioA_placeBet_insert_fails:
  "placeBet (only_fails InsertBet) (HOUSE_MARGIN None) ''m1'' ''u1'' ''yes'' 100 scenarioA_db
     = (Inl BetProcessingFailed,
        scenarioA_db \<lparr> markets :=
          [''m1'' \<mapsto> market_change scenarioA_settlement scenarioA_market] \<rparr>)"
proof -
  have n: "\<not> only_fails InsertBet SelectMarket" "\<not> only_fails InsertBet SelectProfile"
    "\<not> only_fails InsertBet UpdateMarket" "only_fails InsertBet InsertBet"
    by (simp_all add: only_fails_def)
  have mk: "markets scenarioA_db (tx_marketId scenarioA_settlement) = Some scenarioA_market"
    and pk: "profiles scenarioA_db (tx_userId scenarioA_settlement) = Some \<lparr> profile_balance = 500 \<rparr>"
    by (simp_all add: scenarioA_tables scenarioA_settlement_keys)
  show ?thesis
    unfolding placeBet_commit [OF scenarioA_reaches_commit [OF n(1,2)] scenarioA_pricing]
      executeTransaction_steps [OF mk pk]
    by (simp add: n Let_def scenarioA_settlement_keys scenarioA_tables)
qed


subsection \<open>The commit\<close>

text \<open>
  C1, as the source has it. For a bet that reaches the commit step the six writes are
  made one after another, with no transaction around them. If the market update fails
  the bet is rejected and the database is unchanged. If the bet insert fails the bet is
  rejected and the market update stays. If the balance update fails the bet is rejected
  and the market update and the bet record stay. If no call fails the bet succeeds and
  all six effects are in the database: the market row, the bet record, the debited
  balance, the position upsert, the transaction row and the price-history point.
\<close>

theorem commit_step_by_step:
  assumes v: "validateBetInputs mId uId oc amount = Inr ()"
    and gm: "getMarket fails mId db = Inr m"
    and vm: "validateMarketState m = Inr ()"
    and gp: "getUserProfile fails uId db = Inr pr"
    and vb: "validateUserBalance pr amount = Inr ()"
    and pp: "placeBet_pricing hm mId uId oc amount m pr = Inr p"
  shows "(fails UpdateMarket \<longrightarrow>
            placeBet fails hm mId uId oc amount db = (Inl BetProcessingFailed, db))
       \<and> (\<not> fails UpdateMarket \<and> fails InsertBet \<longrightarrow>
            placeBet fails hm mId uId oc amount db =
              (Inl BetProcessingFailed,
               db \<lparr> markets := (markets db)(mId \<mapsto> market_change p m) \<rparr>))
       \<and> (\<not> fails UpdateMarket \<and> \<not> fails InsertBet \<and> fails UpdateProfile \<longrightarrow>
            placeBet fails hm mId uId oc amount db =
              (Inl BetProcessingFailed,
               db \<lparr> markets := (markets db)(mId \<mapsto> market_change p m),
                    bets := bets db @ [bet_row p (length (bets db))] \<rparr>))
       \<and> ((\<forall>c. \<not> fails c) \<longrightarrow>
            placeBet fails hm mId uId oc amount db =
              (Inr (result_of p (bet_row p (length (bets db)))),
               (updatePosition fails uId mId oc (tx_netAmount p) (tx_tokensReceived p)
                  (tx_effectivePrice p)
                  (db \<lparr> markets := (markets db)(mId \<mapsto> market_change p m),
                        bets := bets db @ [bet_row p (length (bets db))],
                        profiles := (profiles db)
                          (uId \<mapsto> pr \<lparr> profile_balance := profile_balance pr - amount \<rparr>) \<rparr>))
               \<lparr> transactions := transactions db @
                    [transaction_of p (profile_balance pr - amount)
                       (bet_row p (length (bets db)))],
                 price_history := price_history db @
                    [price_point_of p (bet_row p (length (bets db)))] \<rparr>))"
proof -
  note f = placeBet_pricing_fields [OF pp]
  have mk: "markets db (tx_marketId p) = Some m" and pk: "profiles db (tx_userId p) = Some pr"
    using getMarket_Inr [OF gm] getUserProfile_Inr [OF gp] f by simp_all
  note pb = placeBet_commit [OF v gm vm gp vb pp]
  note ex = executeTransaction_steps [OF mk pk, of fails]
  show ?thesis
    unfolding pb ex
    by (simp add: Let_def f updatePosition_other_tables)
qed

theorem commit_step_by_step_witness:
  "placeBet (only_fails UpdateMarket) (HOUSE_MARGIN None) ''m1'' ''u1'' ''yes'' 100 scenarioA_db
     = (Inl BetProcessingFailed, scenarioA_db)
   \<and> placeBet (only_fails InsertBet) (HOUSE_MARGIN None) ''m1'' ''u1'' ''yes'' 100 scenarioA_db
     = (Inl BetProcessingFailed,
        scenarioA_db \<lparr> markets :=
          [''m1'' \<mapsto> market_change scenarioA_settlement scenarioA_market] \<rparr>)
   \<and> placeBet (only_fails UpdateProfile) (HOUSE_MARGIN None) ''m1'' ''u1'' ''yes'' 100 scenarioA_db
     = (Inl BetProcessingFailed,
        scenarioA_db \<lparr> markets :=
          [''m1'' \<mapsto> market_change scenarioA_settlement scenarioA_market],
          bets := [bet_row scenarioA_settlement 0] \<rparr>)
   \<and> placeBet no_failure (HOUSE_MARGIN None) ''m1'' ''u1'' ''yes'' 100 scenarioA_db
     = (Inr (result_of scenarioA_settlement (bet_row scenarioA_settlement 0)),
        \<lparr> markets = [''m1'' \<mapsto> market_change scenarioA_settlement scenarioA_market],
          profiles = [''u1'' \<mapsto> \<lparr> profile_balance = 400 \<rparr>],
          bets = [bet_row scenarioA_settlement 0],
          positions = [\<lparr> position_id = 0, position_user_id = ''u1'',
                         position_market_id = ''m1'', position_outcome = ''yes'',
                         position_shares = 1000 - 1000000 / 1098,
                         position_avg_price = 549 / 1049,
                         position_total_invested = 98,
                         position_current_value = 98 \<rparr>],
          transactions = [transaction_of scenarioA_settlement 400 (bet_row scenarioA_settlement 0)],
          price_history = [price_point_of scenarioA_settlement (bet_row scenarioA_settlement 0)] \<rparr>)"
proof -
  have r1: "\<not> only_fails UpdateMarket SelectMarket" "\<not> only_fails UpdateMarket SelectProfile"
    and r2: "\<not> only_fails InsertBet SelectMarket" "\<not> only_fails InsertBet SelectProfile"
    and r3: "\<not> only_fails UpdateProfile SelectMarket" "\<not> only_fails UpdateProfile SelectProfile"
    and r4: "\<not> no_failure SelectMarket" "\<not> no_failure SelectProfile"
    by (simp_all add: only_fails_def no_failure_def)
  have w1: "only_fails UpdateMarket UpdateMarket"
    and w2: "\<not> only_fails InsertBet UpdateMarket \<and> only_fails InsertBet InsertBet"
    and w3: "\<not> only_fails UpdateProfile UpdateMarket \<and> \<not> only_fails UpdateProfile InsertBet
             \<and> only_fails UpdateProfile UpdateProfile"
    and w4: "\<forall>c. \<not> no_failure c"
    by (simp_all add: only_fails_def no_failure_def)
  note a = commit_step_by_step [OF scenarioA_reaches_commit [OF r1] scenarioA_pricing]
  note b = commit_step_by_step [OF scenarioA_reaches_commit [OF r2] scenarioA_pricing]
  note c = commit_step_by_step [OF scenarioA_reaches_commit [OF r3] scenarioA_pricing]
  note d = commit_step_by_step [OF scenarioA_reaches_commit [OF r4] scenarioA_pricing]
  note a' = a [THEN conjunct1, THEN mp, OF w1]
  note b' = b [THEN conjunct2, THEN conjunct1, THEN mp, OF w2]
  note c' = c [THEN conjunct2, THEN conjunct2, THEN conjunct1, THEN mp, OF w3]
  note d' = d [THEN conjunct2, THEN conjunct2, THEN conjunct2, THEN mp, OF w4]
  have nw: "\<not> no_failure WritePosition"
    by (simp add: no_failure_def)
  note up = updatePosition_first [where fails = no_failure]
  note f = scenarioA_settlement_keys(5-7)
  note e = scenarioA_tables
  have 2: "placeBet (only_fails InsertBet) (HOUSE_MARGIN None) ''m1'' ''u1'' ''yes'' 100 scenarioA_db
     = (Inl BetProcessingFailed,
        scenarioA_db \<lparr> markets :=
          [''m1'' \<mapsto> market_change scenarioA_settlement scenarioA_market] \<rparr>)"
    unfolding b' by (simp add: e)
  have 3: "placeBet (only_fails UpdateProfile) (HOUSE_MARGIN None) ''m1'' ''u1'' ''yes'' 100
      scenarioA_db
     = (Inl BetProcessingFailed,
        scenarioA_db \<lparr> markets :=
          [''m1'' \<mapsto> market_change scenarioA_settlement scenarioA_market],
          bets := [bet_row scenarioA_settlement 0] \<rparr>)"
    unfolding c' by (simp add: e)
  have 4: "placeBet no_failure (HOUSE_MARGIN None) ''m1'' ''u1'' ''yes'' 100 scenarioA_db
     = (Inr (result_of scenarioA_settlement (bet_row scenarioA_settlement 0)),
        \<lparr> markets = [''m1'' \<mapsto> market_change scenarioA_settlement scenarioA_market],
          profiles = [''u1'' \<mapsto> \<lparr> profile_balance = 400 \<rparr>],
          bets = [bet_row scenarioA_settlement 0],
          positions = [\<lparr> position_id = 0, position_user_id = ''u1'',
                         position_market_id = ''m1'', position_outcome = ''yes'',
                         position_shares = 1000 - 1000000 / 1098,
                         position_avg_price = 549 / 1049,
                         position_total_invested = 98,
                         position_current_value = 98 \<rparr>],
          transactions = [transaction_of scenarioA_settlement 400 (bet_row scenarioA_settlement 0)],
          price_history = [price_point_of scenarioA_settlement (bet_row scenarioA_settlement 0)] \<rparr>)"
    unfolding d' f by (simp add: up nw e)
  show ?thesis using a' 2 3 4 by simp
qed

text \<open>
  C1 as stated promises an unchanged database whenever the bet is rejected. In scenario A
  with a failing bet insert the bet is rejected, no bet is recorded, and the market row
  already shows the new yes pool \<open>500000 / 549\<close> instead of 1000.
\<close>

theorem rejected_bet_keeps_market_update:
  "fst (placeBet (only_fails InsertBet) (HOUSE_MARGIN None) ''m1'' ''u1'' ''yes'' 100 scenarioA_db)
     = Inl BetProcessingFailed
   \<and> map_option market_yes_pool (markets scenarioA_db ''m1'') = Some 1000
   \<and> map_option market_yes_pool
        (markets (snd (placeBet (only_fails InsertBet) (HOUSE_MARGIN None) ''m1'' ''u1'' ''yes'' 100
           scenarioA_db)) ''m1'') = Some (500000 / 549)
   \<and> bets (snd (placeBet (only_fails InsertBet) (HOUSE_MARGIN None) ''m1'' ''u1'' ''yes'' 100
        scenarioA_db)) = []
   \<and> snd (placeBet (only_fails InsertBet) (HOUSE_MARGIN None) ''m1'' ''u1'' ''yes'' 100 scenarioA_db)
       \<noteq> scenarioA_db"
proof -
  have a: "map_option market_yes_pool (markets scenarioA_db ''m1'') = Some 1000"
    by (simp add: scenarioA_db_def scenarioA_market_def)
  have b: "map_option market_yes_pool
        (markets (snd (placeBet (only_fails InsertBet) (HOUSE_MARGIN None) ''m1'' ''u1'' ''yes'' 100
           scenarioA_db)) ''m1'') = Some (500000 / 549)"
    by (simp add: scenarioA_placeBet_insert_fails market_change_def scenarioA_settlement_def)
  have c: "snd (placeBet (only_fails InsertBet) (HOUSE_MARGIN None) ''m1'' ''u1'' ''yes'' 100
      scenarioA_db) \<noteq> scenarioA_db"
    using a b by auto
  show ?thesis
    using a b c by (simp add: scenarioA_placeBet_insert_fails scenarioA_tables)
qed


subsection \<open>Balance\<close>

text \<open>
  C6. A bet that succeeds leaves the user's balance lower by exactly the gross bet
  amount. The net amount is strictly smaller than the gross amount, so the debit is
  never the net amount.
\<close>

theorem balance_debited_by_gross:
  assumes ok: "placeBet fails (HOUSE_MARGIN env) mId uId oc amount db = (Inr r, db')"
  shows "\<exists>pr pr'. profiles db uId = Some pr \<and> profiles db' uId = Some pr'
           \<and> profile_balance pr' = profile_balance pr - amount
           \<and> result_grossAmount r = amount
           \<and> result_netAmount r < amount
           \<and> profile_balance pr' \<noteq> profile_balance pr - result_netAmount r"
proof -
  from ok obtain m pr p where
    v: "validateBetInputs mId uId oc amount = Inr ()"
    and gm: "getMarket fails mId db = Inr m"
    and vm: "validateMarketState m = Inr ()"
    and gp: "getUserProfile fails uId db = Inr pr"
    and vb: "validateUserBalance pr amount = Inr ()"
    and pp: "placeBet_pricing (HOUSE_MARGIN env) mId uId oc amount m pr = Inr p"
    by (auto simp add: placeBet_def split: sum.splits)
  note f = placeBet_pricing_fields [OF pp]
  have mk: "markets db (tx_marketId p) = Some m" and pk: "profiles db (tx_userId p) = Some pr"
    using getMarket_Inr [OF gm] getUserProfile_Inr [OF gp] f by simp_all
  have ex: "executeTransaction fails p db = (Inr r, db')"
    using ok placeBet_commit [OF v gm vm gp vb pp]
    by (auto split: prod.splits sum.splits)
  have bal: "profiles db' uId = Some (pr \<lparr> profile_balance := profile_balance pr - amount \<rparr>)"
    and res: "r = result_of p (bet_row p (length (bets db)))"
    using ex f unfolding executeTransaction_steps [OF mk pk]
    by (auto simp add: Let_def updatePosition_other_tables split: if_splits)
  have net: "result_netAmount r = amount - amount * HOUSE_MARGIN env"
    and gross: "result_grossAmount r = amount"
    using res f by (simp_all add: result_of_def)
  have hm: "0 < HOUSE_MARGIN env"
    by (rule HOUSE_MARGIN_pos)
  then have "0 < amount * HOUSE_MARGIN env"
    using f(8) by simp
  then show ?thesis
    using bal net gross getUserProfile_Inr [OF gp] f(8) hm by simp
qed

theorem balance_debited_by_gross_witness:
  "map_option profile_balance (profiles scenarioA_db ''u1'') = Some 500
   \<and> map_option profile_balance
        (profiles (snd (placeBet no_failure (HOUSE_MARGIN None) ''m1'' ''u1'' ''yes'' 100
           scenarioA_db)) ''u1'') = Some (500 - 100)
   \<and> map_sum id result_netAmount
        (fst (placeBet no_failure (HOUSE_MARGIN None) ''m1'' ''u1'' ''yes'' 100 scenarioA_db))
       = Inr 98"
proof -
  from balance_debited_by_gross [OF scenarioA_placeBet]
  obtain pr pr' where "profiles scenarioA_db ''u1'' = Some pr"
    and "profiles \<lparr> markets = [''m1'' \<mapsto> market_change scenarioA_settlement scenarioA_market],
          profiles = [''u1'' \<mapsto> \<lparr> profile_balance = 400 \<rparr>],
          bets = [bet_row scenarioA_settlement 0],
          positions = [\<lparr> position_id = 0, position_user_id = ''u1'',
                         position_market_id = ''m1'', position_outcome = ''yes'',
                         position_shares = 1000 - 1000000 / 1098,
                         position_avg_price = 549 / 1049,
                         position_total_invested = 98,
                         position_current_value = 98 \<rparr>],
          transactions = [transaction_of scenarioA_settlement 400 (bet_row scenarioA_settlement 0)],
          price_history = [price_point_of scenarioA_settlement (bet_row scenarioA_settlement 0)] \<rparr>
        ''u1'' = Some pr'"
    and "profile_balance pr' = profile_balance pr - 100"
    by blast
  then show ?thesis
    by (auto simp add: scenarioA_placeBet scenarioA_tables result_of_def scenarioA_settlement_def)
qed


subsection \<open>Positions\<close>

text \<open>
  C4 at the first bet of scenario A. The position is created with 98 invested,
  \<open>1000 - 1000000 / 1098\<close> shares and the effective price \<open>549 / 1049\<close> as average
  price; \<open>total_invested / shares\<close> is \<open>549 / 500\<close>.
\<close>

theorem first_bet_avg_price:
  "positions (snd (placeBet no_failure (HOUSE_MARGIN None) ''m1'' ''u1'' ''yes'' 100 scenarioA_db))
     = [\<lparr> position_id = 0, position_user_id = ''u1'',
          position_market_id = ''m1'', position_outcome = ''yes'',
          position_shares = 1000 - 1000000 / 1098,
          position_avg_price = 549 / 1049,
          position_total_invested = 98,
          position_current_value = 98 \<rparr>]
   \<and> (98 / (1000 - 1000000 / 1098) :: real) = 549 / 500
   \<and> (549 / 1049 :: real) \<noteq> 98 / (1000 - 1000000 / 1098)"
  by (simp add: scenarioA_placeBet)


subsection \<open>Scenario A in numbers\<close>

text \<open>
  C5, as the source has it. In scenario A a bet of 100 on yes at a fee of 2 percent has
  net amount 98 and receives \<open>1000 - 1000000 / 1098\<close> tokens, which is between 89.2531 and
  89.2532. The new reserves are \<open>500000 / 549\<close> (910.75 to two decimals) and 1098, and the
  new yes price is \<open>301401 / 551401\<close> (0.5466 to four decimals).
\<close>

theorem scenarioA_bet:
  "fst (placeBet no_failure (HOUSE_MARGIN None) ''m1'' ''u1'' ''yes'' 100 scenarioA_db)
     = Inr \<lparr> result_betId = 0, result_marketId = ''m1'', result_outcome = ''yes'',
             result_grossAmount = 100, result_netAmount = 98, result_houseFee = 2,
             result_tokensReceived = 1000 - 1000000 / 1098,
             result_effectivePrice = 549 / 1049, result_slippage = 49 / 1049,
             result_priceBeforeBet = 1 / 2,
             result_newYesPrice = 301401 / 551401, result_newNoPrice = 250000 / 551401,
             result_newYesPool = 500000 / 549, result_newNoPool = 1098,
             result_potentialPayout = 1000 - 1000000 / 1098,
             result_potentialProfit = 1000 - 1000000 / 1098 - 100 \<rparr>
   \<and> HOUSE_MARGIN None = 0.02
   \<and> (89.2531 :: real) < 1000 - 1000000 / 1098 \<and> (1000 - 1000000 / 1098 :: real) < 89.2532
   \<and> \<bar>500000 / 549 - 910.75\<bar> < (0.005 :: real)
   \<and> \<bar>301401 / 551401 - 0.5466\<bar> < (0.00005 :: real)"
proof (intro conjI)
  show "HOUSE_MARGIN None = 0.02"
    by (simp add: HOUSE_MARGIN_def MIN_MARGIN_def MAX_MARGIN_def)
qed (simp_all add: scenarioA_placeBet result_of_def bet_row_def scenarioA_settlement_def)

text \<open>
  C5 as stated gives the tokens as 89.2533 followed by further digits. The value is
  \<open>49000 / 549\<close>, which is below 89.25325: it neither starts with 89.2533 nor rounds to it.
\<close>

theorem scenarioA_tokens_decimal:
  "map_sum id result_tokensReceived
     (fst (placeBet no_failure (HOUSE_MARGIN None) ''m1'' ''u1'' ''yes'' 100 scenarioA_db))
     = Inr (49000 / 549)
   \<and> \<not> ((89.25325 :: real) \<le> 49000 / 549 \<and> (49000 / 549 :: real) < 89.2534)"
  by (simp add: scenarioA_placeBet result_of_def scenarioA_settlement_def)

end
